theory Spec2Isabelle
  imports Main
begin

section \<open>Values, dictionaries and raised exceptions\<close>

text \<open>
  The workflow builder of \<^verbatim>\<open>src/main.py\<close> stores JSON-compatible Python values in the
  configuration, position and output of an element and in the results of a run.
  A float is carried as an opaque token (its \<^verbatim>\<open>repr\<close>): the program never computes
  with one. A \<^verbatim>\<open>dict\<close> with string keys is an association list in insertion order.
\<close>

datatype pyval =
    PNone
  | PBool bool
  | PInt int
  | PFloat string
  | PStr string
  | PList "pyval list"
  | PDict "(string \<times> pyval) list"

type_synonym dict = "(string \<times> pyval) list"

text \<open>The exceptions the modelled code can raise, with the key or the message.\<close>

datatype py_error = KeyError string | IndexError string | OverflowError string

text \<open>
  \<^verbatim>\<open>str(e)\<close> of a caught exception. For a \<^verbatim>\<open>KeyError\<close> it is the \<^verbatim>\<open>repr\<close> of the key; the
  keys raised here are the literals \<^verbatim>\<open>'true_action'\<close>, \<^verbatim>\<open>'type'\<close> and \<^verbatim>\<open>'id'\<close>, whose
  \<^verbatim>\<open>repr\<close> is the key between single quotes.
\<close>

fun py_exc_str :: "py_error \<Rightarrow> string" where
  "py_exc_str (KeyError k) = [CHR 0x27] @ k @ [CHR 0x27]"
| "py_exc_str (IndexError m) = m"
| "py_exc_str (OverflowError m) = m"

text \<open>\<^verbatim>\<open>k in d\<close>, \<^verbatim>\<open>d[k]\<close>, \<^verbatim>\<open>d.get(k, dflt)\<close> and \<^verbatim>\<open>d[k] = v\<close> on a \<^verbatim>\<open>dict\<close>.\<close>

definition dict_contains :: "dict \<Rightarrow> string \<Rightarrow> bool" where
  "dict_contains d k = (map_of d k \<noteq> None)"

definition dict_getitem :: "dict \<Rightarrow> string \<Rightarrow> py_error + pyval" where
  "dict_getitem d k = (case map_of d k of None \<Rightarrow> Inl (KeyError k) | Some v \<Rightarrow> Inr v)"

definition dict_get :: "dict \<Rightarrow> string \<Rightarrow> pyval \<Rightarrow> pyval" where
  "dict_get d k dflt = (case map_of d k of None \<Rightarrow> dflt | Some v \<Rightarrow> v)"

primrec dict_setitem :: "dict \<Rightarrow> string \<Rightarrow> pyval \<Rightarrow> dict" where
  "dict_setitem [] k v = [(k, v)]"
| "dict_setitem (p # ps) k v = (if fst p = k then (k, v) # ps else p # dict_setitem ps k v)"

text \<open>
  A replacement field \<^verbatim>\<open>{v}\<close> of an f-string is \<^verbatim>\<open>str(v)\<close>: a string is inserted as it
  is; for every other value the text is what the builtin \<^verbatim>\<open>str\<close> gives, which is not code
  of this program and is taken as the parameter \<open>fmt\<close>.
\<close>

type_synonym formatter = "pyval \<Rightarrow> string"

definition fstring_field :: "formatter \<Rightarrow> pyval \<Rightarrow> string" where
  "fstring_field fmt v = (case v of PStr s \<Rightarrow> s | _ \<Rightarrow> fmt v)"

section \<open>Elements and the session state\<close>

text \<open>
  \<^verbatim>\<open>class WorkflowElement\<close>. The fields \<^verbatim>\<open>id\<close> and \<^verbatim>\<open>type\<close> are strings; \<^verbatim>\<open>status\<close> is a
  Python string too, not an enumeration: nothing in the program restricts what is
  assigned to it.
\<close>

record workflow_element =
  elem_id :: string
  elem_type :: string
  position :: pyval
  config :: dict
  status :: string
  elem_output :: pyval

text \<open>
  \<^verbatim>\<open>st.session_state\<close>, with the number of values drawn so far from \<^verbatim>\<open>uuid.uuid4()\<close>:
  the generator is the parameter \<open>uuid4\<close>, whose \<open>n\<close>-th value is \<open>uuid4 n\<close>.
\<close>

record session_state =
  workflow_elements :: "workflow_element list"
  workflow_data :: dict
  execution_results :: dict
  uuid_calls :: nat

definition initial_state :: session_state where
  "initial_state =
     \<lparr>workflow_elements = [], workflow_data = [], execution_results = [], uuid_calls = 0\<rparr>"

text \<open>
  \<^verbatim>\<open>WorkflowElement.__init__(element_type, element_id=None)\<close>:
  \<^verbatim>\<open>self.id = element_id or str(uuid.uuid4())\<close> draws a value when the given id is
  \<^verbatim>\<open>None\<close> or the empty string.
\<close>

definition WorkflowElement_init ::
  "(nat \<Rightarrow> string) \<Rightarrow> nat \<Rightarrow> string \<Rightarrow> string option \<Rightarrow> workflow_element \<times> nat" where
  "WorkflowElement_init uuid4 n element_type element_id =
     (let (new_id, n') =
            (case element_id of
               None \<Rightarrow> (uuid4 n, Suc n)
             | Some i \<Rightarrow> if i \<noteq> [] then (i, n) else (uuid4 n, Suc n))
      in (\<lparr>elem_id = new_id, elem_type = element_type,
           position = PDict [(''x'', PInt 0), (''y'', PInt 0)],
           config = [], status = ''pending'', elem_output = PNone\<rparr>, n'))"

section \<open>The executor\<close>

text \<open>
  The body of the \<^verbatim>\<open>try\<close> in \<^verbatim>\<open>execute_workflow\<close> for one element: \<open>Inl\<close> is the exception
  raised, \<open>Inr\<close> the element and the results after the body.
\<close>

definition execute_body ::
  "formatter \<Rightarrow> workflow_element \<Rightarrow> dict \<Rightarrow> py_error + (workflow_element \<times> dict)" where
  "execute_body fmt element results =
     (if elem_type element = ''pdf_upload'' then
        (if dict_contains (config element) ''filename'' then
           (case dict_getitem (config element) ''filename'' of
              Inl exn \<Rightarrow> Inl exn
            | Inr filename \<Rightarrow>
                Inr (element\<lparr>status := ''ready''\<rparr>,
                     dict_setitem results (elem_id element)
                       (PStr (''PDF processed: '' @ fstring_field fmt filename))))
         else
           Inr (element\<lparr>status := ''error''\<rparr>,
                dict_setitem results (elem_id element) (PStr ''No PDF uploaded'')))
      else if elem_type element \<in> set [''text_input'', ''number_input'', ''date_input'',
                                         ''checkbox'', ''slider'', ''selectbox''] then
        Inr (element\<lparr>status := ''ready''\<rparr>,
             dict_setitem results (elem_id element)
               (dict_get (config element) ''value'' (PStr ''No value'')))
      else if elem_type element = ''conditional'' then
        (let condition_met = True in
         case (if condition_met then dict_getitem (config element) ''true_action''
               else dict_getitem (config element) ''false_action'') of
           Inl exn \<Rightarrow> Inl exn
         | Inr action \<Rightarrow>
             Inr (element\<lparr>status := ''ready''\<rparr>,
                  dict_setitem results (elem_id element)
                    (PStr (''Executed: '' @ fstring_field fmt action))))
      else if elem_type element = ''data_display'' then
        Inr (element\<lparr>status := ''ready''\<rparr>,
             dict_setitem results (elem_id element) (PStr ''Data displayed successfully''))
      else if elem_type element = ''api_call'' then
        Inr (element\<lparr>status := ''ready''\<rparr>,
             dict_setitem results (elem_id element)
               (PStr (''API call to ''
                  @ fstring_field fmt (dict_get (config element) ''url'' (PStr ''undefined''))
                  @ '' completed'')))
      else if elem_type element = ''email'' then
        Inr (element\<lparr>status := ''ready''\<rparr>,
             dict_setitem results (elem_id element)
               (PStr (''Email sent to ''
                  @ fstring_field fmt
                      (dict_get (config element) ''recipient'' (PStr ''undefined'')))))
      else
        Inr (element\<lparr>status := ''ready''\<rparr>,
             dict_setitem results (elem_id element)
               (PStr (elem_type element @ '' executed successfully''))))"

text \<open>
  One iteration of the loop: the status becomes \<^verbatim>\<open>processing\<close>, the body runs, and the
  \<^verbatim>\<open>except Exception\<close> clause turns an exception into the status \<^verbatim>\<open>error\<close> and an
  \<^verbatim>\<open>Error: ...\<close> result.
\<close>

definition execute_element ::
  "formatter \<Rightarrow> workflow_element \<Rightarrow> dict \<Rightarrow> workflow_element \<times> dict" where
  "execute_element fmt element results =
     (let element = element\<lparr>status := ''processing''\<rparr> in
      case execute_body fmt element results of
        Inr done \<Rightarrow> done
      | Inl e \<Rightarrow>
          (element\<lparr>status := ''error''\<rparr>,
           dict_setitem results (elem_id element) (PStr (''Error: '' @ py_exc_str e))))"

text \<open>The \<^verbatim>\<open>for\<close> loop over \<^verbatim>\<open>st.session_state.workflow_elements\<close>.\<close>

fun execute_loop ::
  "formatter \<Rightarrow> workflow_element list \<Rightarrow> dict \<Rightarrow> workflow_element list \<times> dict" where
  "execute_loop fmt [] results = ([], results)"
| "execute_loop fmt (element # rest) results =
     (let (element', results') = execute_element fmt element results;
          (rest', results'') = execute_loop fmt rest results'
      in (element' # rest', results''))"

text \<open>
  \<^verbatim>\<open>execute_workflow()\<close>: with no element it warns and returns; otherwise it runs the loop
  from an empty \<^verbatim>\<open>results\<close> and stores it as \<^verbatim>\<open>execution_results\<close>. The pause
  \<^verbatim>\<open>time.sleep(0.5)\<close> and the messages shown are not part of the state.
\<close>

definition execute_workflow :: "formatter \<Rightarrow> session_state \<Rightarrow> session_state" where
  "execute_workflow fmt st =
     (if workflow_elements st = [] then st
      else
        (let (elements', results) = execute_loop fmt (workflow_elements st) []
         in st\<lparr>workflow_elements := elements', execution_results := results\<rparr>))"

section \<open>The workflow model\<close>

text \<open>
  \<^verbatim>\<open>add_element_to_workflow(element_type)\<close>: a new element with a drawn id, placed at
  \<^verbatim>\<open>x = len(workflow_elements) * 100\<close>, \<^verbatim>\<open>y = 50\<close>, and appended.
\<close>

definition add_element_to_workflow ::
  "(nat \<Rightarrow> string) \<Rightarrow> string \<Rightarrow> session_state \<Rightarrow> session_state" where
  "add_element_to_workflow uuid4 element_type st =
     (let (element, n') = WorkflowElement_init uuid4 (uuid_calls st) element_type None;
          element = element\<lparr>position :=
            PDict [(''x'', PInt (int (length (workflow_elements st)) * 100)),
                   (''y'', PInt 50)]\<rparr>
      in st\<lparr>workflow_elements := workflow_elements st @ [element], uuid_calls := n'\<rparr>)"

text \<open>
  The largest value of a C \<^verbatim>\<open>ssize_t\<close>, \<^verbatim>\<open>sys.maxsize\<close>, on a 64-bit build of CPython.
\<close>

definition PY_SSIZE_T_MAX :: int where
  "PY_SSIZE_T_MAX = 2 ^ 63 - 1"

text \<open>
  \<^verbatim>\<open>list.pop(index)\<close>. The index is first converted to a C \<^verbatim>\<open>ssize_t\<close>, which raises
  \<^verbatim>\<open>OverflowError\<close> for an index that does not fit. Then an empty list raises
  \<^verbatim>\<open>IndexError\<close>, a negative index counts from the end, and an index outside
  \<open>-len \<dots> len - 1\<close> raises \<^verbatim>\<open>IndexError\<close>.
\<close>

definition list_pop :: "'a list \<Rightarrow> int \<Rightarrow> py_error + 'a list" where
  "list_pop xs index =
     (if index < - PY_SSIZE_T_MAX - 1 \<or> PY_SSIZE_T_MAX < index then
        Inl (OverflowError ''Python int too large to convert to C ssize_t'')
      else if xs = [] then Inl (IndexError ''pop from empty list'')
      else
        (let n = int (length xs);
             i = (if index < 0 then index + n else index)
         in if 0 \<le> i \<and> i < n then Inr (take (nat i) xs @ drop (Suc (nat i)) xs)
            else Inl (IndexError ''pop index out of range'')))"

text \<open>
  The delete button of \<^verbatim>\<open>render_workflow_element\<close>:
  \<^verbatim>\<open>st.session_state.workflow_elements.pop(index)\<close>. The result is the exception raised,
  if any, and the state after the call.
\<close>

definition remove_element :: "int \<Rightarrow> session_state \<Rightarrow> py_error option \<times> session_state" where
  "remove_element index st =
     (case list_pop (workflow_elements st) index of
        Inl e \<Rightarrow> (Some e, st)
      | Inr elements' \<Rightarrow> (None, st\<lparr>workflow_elements := elements'\<rparr>))"

text \<open>The clear button of \<^verbatim>\<open>create_element_palette\<close>.\<close>

definition clear_workflow :: "session_state \<Rightarrow> session_state" where
  "clear_workflow st = st\<lparr>workflow_elements := [], workflow_data := [], execution_results := []\<rparr>"

section \<open>Configuration through the widgets\<close>

text \<open>
  What the Streamlit widgets return in one script run, by widget key; every widget call
  is taken to return. An uploaded file is its name and size; a date is given by its
  \<^verbatim>\<open>str\<close>. Characters are code points below 256.
\<close>

record widgets =
  st_file_uploader :: "string \<Rightarrow> (string \<times> int) option"
  st_text_input :: "string \<Rightarrow> string"
  st_text_area :: "string \<Rightarrow> string"
  st_number_input :: "string \<Rightarrow> pyval"
  st_date_input :: "string \<Rightarrow> string"
  st_checkbox :: "string \<Rightarrow> bool"
  st_slider :: "string \<Rightarrow> int"
  st_selectbox :: "string \<Rightarrow> string"
  st_button :: "string \<Rightarrow> bool"

text \<open>\<^verbatim>\<open>s.split('\n')\<close> and \<^verbatim>\<open>s.strip()\<close>.\<close>

primrec py_split :: "char \<Rightarrow> string \<Rightarrow> string list" where
  "py_split sep [] = [[]]"
| "py_split sep (c # cs) =
     (if c = sep then [] # py_split sep cs
      else (case py_split sep cs of [] \<Rightarrow> [[c]] | w # ws \<Rightarrow> (c # w) # ws))"

definition py_isspace :: "char \<Rightarrow> bool" where
  "py_isspace c = ((of_char c :: nat) \<in> set [9, 10, 11, 12, 13, 28, 29, 30, 31, 32, 133, 160])"

definition py_strip :: "string \<Rightarrow> string" where
  "py_strip s = rev (dropWhile py_isspace (rev (dropWhile py_isspace s)))"

text \<open>
  \<^verbatim>\<open>render_element_config(element, index)\<close>: the configuration and the status an element
  gets from the widgets of its type. What is only displayed is left out.
\<close>

definition render_element_config :: "widgets \<Rightarrow> workflow_element \<Rightarrow> workflow_element" where
  "render_element_config ui element =
     (if elem_type element = ''pdf_upload'' then
        (case st_file_uploader ui (''pdf_'' @ elem_id element) of
           None \<Rightarrow> element
         | Some (file_name, file_size) \<Rightarrow>
             element\<lparr>config := dict_setitem (dict_setitem (config element)
                                   ''filename'' (PStr file_name)) ''size'' (PInt file_size),
                     status := ''ready''\<rparr>)
      else if elem_type element = ''text_input'' then
        (let label = st_text_input ui (''label_'' @ elem_id element);
             val = st_text_area ui (''text_'' @ elem_id element);
             element = element\<lparr>config := [(''label'', PStr label), (''value'', PStr val)]\<rparr>
         in if val \<noteq> [] then element\<lparr>status := ''ready''\<rparr> else element)
      else if elem_type element = ''number_input'' then
        (let label = st_text_input ui (''num_label_'' @ elem_id element);
             val = st_number_input ui (''number_'' @ elem_id element)
         in element\<lparr>config := [(''label'', PStr label), (''value'', val)],
                    status := ''ready''\<rparr>)
      else if elem_type element = ''date_input'' then
        (let label = st_text_input ui (''date_label_'' @ elem_id element);
             val = st_date_input ui (''date_'' @ elem_id element)
         in element\<lparr>config := [(''label'', PStr label), (''value'', PStr val)],
                    status := ''ready''\<rparr>)
      else if elem_type element = ''checkbox'' then
        (let label = st_text_input ui (''cb_label_'' @ elem_id element);
             val = st_checkbox ui (''checkbox_'' @ elem_id element)
         in element\<lparr>config := [(''label'', PStr label), (''value'', PBool val)],
                    status := ''ready''\<rparr>)
      else if elem_type element = ''slider'' then
        (let label = st_text_input ui (''slider_label_'' @ elem_id element);
             min_val = st_number_input ui (''slider_min_'' @ elem_id element);
             max_val = st_number_input ui (''slider_max_'' @ elem_id element);
             val = st_slider ui (''slider_'' @ elem_id element)
         in element\<lparr>config := [(''label'', PStr label), (''min'', min_val),
                                (''max'', max_val), (''value'', PInt val)],
                    status := ''ready''\<rparr>)
      else if elem_type element = ''selectbox'' then
        (let label = st_text_input ui (''sb_label_'' @ elem_id element);
             options_text = st_text_area ui (''sb_options_'' @ elem_id element);
             options = map py_strip
                         (filter (\<lambda>opt. py_strip opt \<noteq> []) (py_split CHR 0x0A options_text))
         in if options \<noteq> [] then
              (let val = st_selectbox ui (''selectbox_'' @ elem_id element)
               in element\<lparr>config := [(''label'', PStr label),
                                      (''options'', PList (map PStr options)),
                                      (''value'', PStr val)],
                          status := ''ready''\<rparr>)
            else element)
      else if elem_type element = ''conditional'' then
        (let condition_type = st_selectbox ui (''cond_type_'' @ elem_id element);
             condition_value = st_text_input ui (''cond_val_'' @ elem_id element);
             true_action = st_text_input ui (''true_action_'' @ elem_id element);
             false_action = st_text_input ui (''false_action_'' @ elem_id element)
         in element\<lparr>config := [(''condition_type'', PStr condition_type),
                                (''condition_value'', PStr condition_value),
                                (''true_action'', PStr true_action),
                                (''false_action'', PStr false_action)],
                    status := (if condition_value \<noteq> [] then ''ready'' else ''pending'')\<rparr>)
      else if elem_type element = ''data_display'' then
        (let display_type = st_selectbox ui (''display_type_'' @ elem_id element)
         in element\<lparr>config := [(''display_type'', PStr display_type)], status := ''ready''\<rparr>)
      else if elem_type element = ''chart'' then
        (let chart_type = st_selectbox ui (''chart_type_'' @ elem_id element)
         in element\<lparr>config := [(''chart_type'', PStr chart_type)], status := ''ready''\<rparr>)
      else if elem_type element = ''api_call'' then
        (let url = st_text_input ui (''api_url_'' @ elem_id element);
             method = st_selectbox ui (''api_method_'' @ elem_id element);
             headers = st_text_area ui (''api_headers_'' @ elem_id element)
         in element\<lparr>config := [(''url'', PStr url), (''method'', PStr method),
                                (''headers'', PStr headers)],
                    status := (if url \<noteq> [] then ''ready'' else ''pending'')\<rparr>)
      else if elem_type element = ''email'' then
        (let recipient = st_text_input ui (''email_to_'' @ elem_id element);
             subject = st_text_input ui (''email_subject_'' @ elem_id element);
             body = st_text_area ui (''email_body_'' @ elem_id element)
         in element\<lparr>config := [(''recipient'', PStr recipient), (''subject'', PStr subject),
                                (''body'', PStr body)],
                    status := (if recipient \<noteq> [] \<and> subject \<noteq> [] then ''ready''
                               else ''pending'')\<rparr>)
      else element)"

text \<open>
  The loop of \<^verbatim>\<open>render_workflow_canvas\<close> over \<^verbatim>\<open>enumerate(workflow_elements)\<close>: each
  element is configured in place; a pressed delete button pops the element at its index
  and \<^verbatim>\<open>st.rerun()\<close> ends the script run.
\<close>

fun render_elements ::
  "widgets \<Rightarrow> nat \<Rightarrow> workflow_element list \<Rightarrow> session_state \<Rightarrow> session_state" where
  "render_elements ui i [] st = st"
| "render_elements ui i (element # rest) st =
     (let st = st\<lparr>workflow_elements :=
                 (workflow_elements st)[i := render_element_config ui element]\<rparr>
      in if st_button ui (''delete_'' @ elem_id element) then snd (remove_element (int i) st)
         else render_elements ui (Suc i) rest st)"

definition render_workflow_canvas :: "widgets \<Rightarrow> session_state \<Rightarrow> session_state" where
  "render_workflow_canvas ui st =
     (if workflow_elements st = [] then st
      else render_elements ui 0 (workflow_elements st) st)"

section \<open>Export and import\<close>

text \<open>
  The JSON object of one element and of a workflow, as \<^verbatim>\<open>json.load\<close> gives them: a field
  is \<open>None\<close> when its key is absent. A field that is present has the type of the
  serialized format: \<^verbatim>\<open>id\<close>, \<^verbatim>\<open>type\<close> and \<^verbatim>\<open>status\<close> are strings, any strings, \<^verbatim>\<open>config\<close> is
  an object, and \<^verbatim>\<open>position\<close> and \<^verbatim>\<open>output\<close> are any values. \<^verbatim>\<open>json.dumps\<close> followed by
  \<^verbatim>\<open>json.load\<close> gives the structure back; the two library calls are not modelled.
\<close>

record element_data =
  data_id :: "string option"
  data_type :: "string option"
  data_position :: "pyval option"
  data_config :: "dict option"
  data_status :: "string option"
  data_output :: "pyval option"

record workflow_document =
  elements :: "element_data list option"
  created_at :: "string option"
  version :: "string option"

text \<open>\<^verbatim>\<open>WorkflowElement.to_dict\<close> and \<^verbatim>\<open>export_workflow\<close>; \<open>now\<close> is the time stamp.\<close>

definition to_dict :: "workflow_element \<Rightarrow> element_data" where
  "to_dict element =
     \<lparr>data_id = Some (elem_id element), data_type = Some (elem_type element),
      data_position = Some (position element), data_config = Some (config element),
      data_status = Some (status element), data_output = Some (elem_output element)\<rparr>"

definition export_workflow :: "string \<Rightarrow> session_state \<Rightarrow> workflow_document" where
  "export_workflow now st =
     \<lparr>elements = Some (map to_dict (workflow_elements st)),
      created_at = Some now, version = Some ''1.0''\<rparr>"

text \<open>
  The loop of \<^verbatim>\<open>import_workflow\<close>. \<^verbatim>\<open>element_data['type']\<close> is evaluated before
  \<^verbatim>\<open>element_data['id']\<close>; a missing key raises \<^verbatim>\<open>KeyError\<close> and leaves the elements
  appended so far.
\<close>

fun import_elements ::
  "(nat \<Rightarrow> string) \<Rightarrow> element_data list \<Rightarrow> session_state \<Rightarrow> py_error option \<times> session_state" where
  "import_elements uuid4 [] st = (None, st)"
| "import_elements uuid4 (element_data # rest) st =
     (case data_type element_data of
        None \<Rightarrow> (Some (KeyError ''type''), st)
      | Some t \<Rightarrow>
          (case data_id element_data of
             None \<Rightarrow> (Some (KeyError ''id''), st)
           | Some i \<Rightarrow>
               (let (element, n') = WorkflowElement_init uuid4 (uuid_calls st) t (Some i);
                    element = element
                      \<lparr>position := (case data_position element_data of
                                       None \<Rightarrow> PDict [(''x'', PInt 0), (''y'', PInt 0)]
                                     | Some p \<Rightarrow> p),
                       config := (case data_config element_data of None \<Rightarrow> [] | Some c \<Rightarrow> c),
                       status := (case data_status element_data of
                                    None \<Rightarrow> ''pending'' | Some s \<Rightarrow> s),
                       elem_output := (case data_output element_data of
                                         None \<Rightarrow> PNone | Some v \<Rightarrow> v)\<rparr>
                in import_elements uuid4 rest
                     (st\<lparr>workflow_elements := workflow_elements st @ [element],
                         uuid_calls := n'\<rparr>))))"

text \<open>
  What \<^verbatim>\<open>import_workflow\<close> shows: \<^verbatim>\<open>st.success\<close> with the number of elements loaded, or
  \<^verbatim>\<open>st.error\<close> with the exception caught by \<^verbatim>\<open>except Exception\<close>.
\<close>

datatype import_report = StSuccess nat | StError py_error

definition import_workflow ::
  "(nat \<Rightarrow> string) \<Rightarrow> workflow_document \<Rightarrow> session_state \<Rightarrow> import_report \<times> session_state" where
  "import_workflow uuid4 workflow_doc st =
     (let st = st\<lparr>workflow_elements := []\<rparr>
      in case import_elements uuid4
                (case elements workflow_doc of None \<Rightarrow> [] | Some l \<Rightarrow> l) st of
           (None, st') \<Rightarrow> (StSuccess (length (workflow_elements st')), st')
         | (Some e, st') \<Rightarrow> (StError e, st'))"

section \<open>Notions used in the statements\<close>

text \<open>
  The terminal status and the result one loop iteration gives an element. Both are read
  off \<open>execute_element\<close> run on empty results, and shown below not to depend on them.
\<close>

definition element_status :: "formatter \<Rightarrow> workflow_element \<Rightarrow> string" where
  "element_status fmt element = status (fst (execute_element fmt element []))"

definition element_result :: "formatter \<Rightarrow> workflow_element \<Rightarrow> pyval" where
  "element_result fmt element =
     (case snd (execute_element fmt element []) of [] \<Rightarrow> PNone | (k, r) # _ \<Rightarrow> r)"

text \<open>
  The results of a run right after the iteration for the element at index \<open>i\<close>: the
  loop run over the elements up to and including that one.
\<close>

definition results_after :: "formatter \<Rightarrow> session_state \<Rightarrow> nat \<Rightarrow> dict" where
  "results_after fmt st i = snd (execute_loop fmt (take (Suc i) (workflow_elements st)) [])"

text \<open>The four status values of the style sheet and of \<^verbatim>\<open>status_colors\<close>.\<close>

definition valid_status :: "string \<Rightarrow> bool" where
  "valid_status s = (s \<in> set [''pending'', ''ready'', ''processing'', ''error''])"

definition statuses_valid :: "session_state \<Rightarrow> bool" where
  "statuses_valid st = list_all (\<lambda>e. valid_status (status e)) (workflow_elements st)"

text \<open>\<^verbatim>\<open>workflow_data.get('elements', [])\<close>, and a document whose status fields are valid.\<close>

definition doc_elements :: "workflow_document \<Rightarrow> element_data list" where
  "doc_elements workflow_doc = (case elements workflow_doc of None \<Rightarrow> [] | Some l \<Rightarrow> l)"

definition doc_statuses_valid :: "workflow_document \<Rightarrow> bool" where
  "doc_statuses_valid workflow_doc =
     list_all (\<lambda>d. case data_status d of None \<Rightarrow> True | Some s \<Rightarrow> valid_status s)
       (doc_elements workflow_doc)"

text \<open>An element object of a document that has both keys \<^verbatim>\<open>import_workflow\<close> indexes.\<close>

definition has_required_fields :: "element_data \<Rightarrow> bool" where
  "has_required_fields d = (data_type d \<noteq> None \<and> data_id d \<noteq> None)"

text \<open>The key whose lookup fails on an element object without both keys.\<close>

definition missing_key :: "element_data \<Rightarrow> string" where
  "missing_key d = (if data_type d = None then ''type'' else ''id'')"

text \<open>Every element has the non-empty id the constructor gives it.\<close>

definition ids_nonempty :: "session_state \<Rightarrow> bool" where
  "ids_nonempty st = list_all (\<lambda>e. elem_id e \<noteq> []) (workflow_elements st)"

text \<open>A sequence of \<^verbatim>\<open>add_element_to_workflow\<close> calls, one per element type, in order.\<close>

definition add_elements :: "(nat \<Rightarrow> string) \<Rightarrow> string list \<Rightarrow> session_state \<Rightarrow> session_state" where
  "add_elements uuid4 element_types st = fold (add_element_to_workflow uuid4) element_types st"

text \<open>The element the \<open>j\<close>-th call of such a sequence appends to the state \<open>st\<close>.\<close>

definition added_element ::
  "(nat \<Rightarrow> string) \<Rightarrow> session_state \<Rightarrow> nat \<Rightarrow> string \<Rightarrow> workflow_element" where
  "added_element uuid4 st j element_type =
     \<lparr>elem_id = uuid4 (uuid_calls st + j), elem_type = element_type,
      position = PDict [(''x'', PInt (int (length (workflow_elements st) + j) * 100)),
                        (''y'', PInt 50)],
      config = [], status = ''pending'', elem_output = PNone\<rparr>"

section \<open>Example inputs\<close>

definition example_fmt :: formatter where
  "example_fmt v = ''<value>''"

definition example_uuid4 :: "nat \<Rightarrow> string" where
  "example_uuid4 n = replicate (Suc n) CHR ''u''"

definition example_element :: "string \<Rightarrow> string \<Rightarrow> dict \<Rightarrow> string \<Rightarrow> workflow_element" where
  "example_element i t c s =
     \<lparr>elem_id = i, elem_type = t, position = PDict [(''x'', PInt 0), (''y'', PInt 0)],
      config = c, status = s, elem_output = PNone\<rparr>"

definition example_pdf_state :: session_state where
  "example_pdf_state =
     initial_state\<lparr>workflow_elements :=
       [example_element ''p1'' ''pdf_upload'' [] ''pending'',
        example_element ''p2'' ''pdf_upload'' [(''filename'', PStr ''a.pdf'')] ''ready'']\<rparr>"

definition example_conditional_state :: session_state where
  "example_conditional_state =
     initial_state\<lparr>workflow_elements :=
       [example_element ''c1'' ''conditional''
          [(''condition_type'', PStr ''equals''), (''condition_value'', PStr []),
           (''true_action'', PStr ''X''), (''false_action'', PStr ''Y'')] ''pending'',
        example_element ''c2'' ''conditional'' [] ''pending'']\<rparr>"

text \<open>One element is added and run, then deleted: the results of the run stay stored.\<close>

definition example_stale_state :: session_state where
  "example_stale_state =
     snd (remove_element 0
       (execute_workflow example_fmt
          (add_element_to_workflow example_uuid4 ''timer'' initial_state)))"


definition example_widgets :: widgets where
  "example_widgets =
     \<lparr>st_file_uploader = (\<lambda>key. None), st_text_input = (\<lambda>key. ''Enter text''),
      st_text_area = (\<lambda>key. []), st_number_input = (\<lambda>key. PInt 0),
      st_date_input = (\<lambda>key. ''2024-01-01''), st_checkbox = (\<lambda>key. False),
      st_slider = (\<lambda>key. 0), st_selectbox = (\<lambda>key. ''equals''),
      st_button = (\<lambda>key. False)\<rparr>"

definition example_data :: "string option \<Rightarrow> string option \<Rightarrow> string option \<Rightarrow> element_data" where
  "example_data i t s =
     \<lparr>data_id = i, data_type = t, data_position = None, data_config = None,
      data_status = s, data_output = None\<rparr>"

definition example_document :: "element_data list \<Rightarrow> workflow_document" where
  "example_document ds =
     \<lparr>elements = Some ds, created_at = Some ''2024-01-01T00:00:00'', version = Some ''1.0''\<rparr>"

text \<open>Two pairs of elements with one id each, as an import can leave them.\<close>

definition example_duplicate_state :: session_state where
  "example_duplicate_state =
     initial_state\<lparr>workflow_elements :=
       [example_element ''b'' ''pdf_upload'' [] ''pending'',
        example_element ''b'' ''text_input'' [(''value'', PStr ''last'')] ''pending'',
        example_element ''a'' ''conditional'' [(''true_action'', PStr ''X'')] ''pending'',
        example_element ''a'' ''timer'' [] ''pending'']\<rparr>"



section \<open>The run of a workflow\<close>

subsection \<open>Dictionaries\<close>

lemma dict_setitem_keys:
  "map fst (dict_setitem d k v) = (if k \<in> set (map fst d) then map fst d else map fst d @ [k])"
  by (induction d) auto

lemma map_of_dict_setitem: "map_of (dict_setitem d k v) = (map_of d)(k \<mapsto> v)"
  by (induction d) (auto simp: fun_eq_iff)

subsection \<open>One iteration and the loop\<close>

text \<open>
  The body changes nothing of the element but its status, and writes one entry, under
  the element's id; status and entry do not depend on the results collected so far.
\<close>

lemma execute_body_shape:
  "execute_body fmt e res =
     (case execute_body fmt e [] of
        Inl x \<Rightarrow> Inl x
      | Inr (e', r) \<Rightarrow> Inr (e\<lparr>status := status e'\<rparr>,
                          dict_setitem res (elem_id e) (case r of [] \<Rightarrow> PNone | (k, v) # _ \<Rightarrow> v)))"
  unfolding execute_body_def Let_def dict_getitem_def
  by (simp split: option.split)

lemma execute_element_eq:
  "execute_element fmt e res =
     (e\<lparr>status := element_status fmt e\<rparr>, dict_setitem res (elem_id e) (element_result fmt e))"
  unfolding execute_element_def element_status_def element_result_def Let_def
  apply (subst execute_body_shape)
  apply (cases "execute_body fmt (e\<lparr>status := ''processing''\<rparr>) []")
   apply (auto split: prod.splits list.splits)
  done

lemma execute_loop_eq:
  "execute_loop fmt es res =
     (map (\<lambda>e. e\<lparr>status := element_status fmt e\<rparr>) es,
      fold (\<lambda>e r. dict_setitem r (elem_id e) (element_result fmt e)) es res)"
  by (induction es arbitrary: res) (simp_all add: execute_element_eq)

lemma execute_workflow_nonempty:
  "workflow_elements st \<noteq> [] \<Longrightarrow>
   execute_workflow fmt st =
     st\<lparr>workflow_elements := map (\<lambda>e. e\<lparr>status := element_status fmt e\<rparr>) (workflow_elements st),
        execution_results :=
          fold (\<lambda>e r. dict_setitem r (elem_id e) (element_result fmt e)) (workflow_elements st) []\<rparr>"
  by (simp add: execute_workflow_def execute_loop_eq)

subsection \<open>The keys and the entries of the results\<close>

lemma fold_setitem_keys:
  "distinct (map elem_id es) \<Longrightarrow> set (map elem_id es) \<inter> set (map fst res) = {} \<Longrightarrow>
   map fst (fold (\<lambda>e r. dict_setitem r (elem_id e) (f e)) es res) = map fst res @ map elem_id es"
proof (induction es arbitrary: res)
  case Nil
  then show ?case by simp
next
  case (Cons a es)
  let ?res = "dict_setitem res (elem_id a) (f a)"
  from Cons.prems have fresh: "elem_id a \<notin> set (map fst res)" by auto
  then have keys: "map fst ?res = map fst res @ [elem_id a]"
    by (simp add: dict_setitem_keys)
  from Cons.prems keys have "set (map elem_id es) \<inter> set (map fst ?res) = {}" by auto
  with Cons.prems Cons.IH [of ?res] keys show ?case by simp
qed

lemma fold_setitem_keys_set:
  "set (map fst (fold (\<lambda>e r. dict_setitem r (elem_id e) (f e)) es res)) =
   set (map fst res) \<union> set (map elem_id es)"
proof (induction es arbitrary: res)
  case Nil
  then show ?case by simp
next
  case (Cons a es)
  have "set (map fst (dict_setitem res (elem_id a) (f a))) = insert (elem_id a) (set (map fst res))"
    by (auto simp: dict_setitem_keys)
  with Cons.IH [of "dict_setitem res (elem_id a) (f a)"] show ?case by simp
qed

lemma fold_setitem_keys_distinct:
  "distinct (map fst res) \<Longrightarrow>
   distinct (map fst (fold (\<lambda>e r. dict_setitem r (elem_id e) (f e)) es res))"
proof (induction es arbitrary: res)
  case Nil
  then show ?case by simp
next
  case (Cons a es)
  from Cons.prems have "distinct (map fst (dict_setitem res (elem_id a) (f a)))"
    by (simp add: dict_setitem_keys)
  with Cons.IH show ?case by simp
qed

lemma fold_setitem_other:
  "k \<notin> set (map elem_id es) \<Longrightarrow>
   map_of (fold (\<lambda>e r. dict_setitem r (elem_id e) (f e)) es res) k = map_of res k"
  by (induction es arbitrary: res) (auto simp: map_of_dict_setitem)

lemma fold_setitem_lookup:
  "distinct (map elem_id es) \<Longrightarrow> e \<in> set es \<Longrightarrow>
   map_of (fold (\<lambda>e r. dict_setitem r (elem_id e) (f e)) es res) (elem_id e) = Some (f e)"
proof (induction es arbitrary: res)
  case Nil
  then show ?case by simp
next
  case (Cons a es)
  show ?case
  proof (cases "e = a")
    case True
    with Cons.prems have "elem_id e \<notin> set (map elem_id es)" by auto
    then show ?thesis using True by (simp add: fold_setitem_other map_of_dict_setitem)
  next
    case False
    with Cons.prems have "e \<in> set es" "distinct (map elem_id es)" by auto
    with Cons.IH show ?thesis by simp
  qed
qed

lemma run_element_at:
  assumes "i < length (workflow_elements st)"
  shows "workflow_elements (execute_workflow fmt st) ! i =
           (workflow_elements st ! i)\<lparr>status := element_status fmt (workflow_elements st ! i)\<rparr>"
proof -
  from assms have "workflow_elements st \<noteq> []" by auto
  with assms show ?thesis by (simp add: execute_workflow_nonempty)
qed

lemma run_result_at:
  assumes "i < length (workflow_elements st)" and "distinct (map elem_id (workflow_elements st))"
  shows "map_of (execution_results (execute_workflow fmt st)) (elem_id (workflow_elements st ! i)) =
           Some (element_result fmt (workflow_elements st ! i))"
proof -
  from assms have ne: "workflow_elements st \<noteq> []" by auto
  from assms have "workflow_elements st ! i \<in> set (workflow_elements st)" by simp
  with assms(2) ne show ?thesis
    by (simp add: execute_workflow_nonempty fold_setitem_lookup)
qed

subsection \<open>The outcome by element type\<close>

lemma pdf_upload_outcome:
  "elem_type e = ''pdf_upload'' \<Longrightarrow>
   element_status fmt e = (if map_of (config e) ''filename'' = None then ''error'' else ''ready'') \<and>
   element_result fmt e =
     (case map_of (config e) ''filename'' of
        None \<Rightarrow> PStr ''No PDF uploaded''
      | Some v \<Rightarrow> PStr (''PDF processed: '' @ fstring_field fmt v))"
  unfolding element_status_def element_result_def execute_element_def execute_body_def
    dict_contains_def dict_getitem_def Let_def
  by (simp split: option.split)

lemma conditional_outcome:
  "elem_type e = ''conditional'' \<Longrightarrow>
   element_status fmt e = (if map_of (config e) ''true_action'' = None then ''error'' else ''ready'') \<and>
   element_result fmt e =
     (case map_of (config e) ''true_action'' of
        None \<Rightarrow> PStr (''Error: '' @ [CHR 0x27] @ ''true_action'' @ [CHR 0x27])
      | Some v \<Rightarrow> PStr (''Executed: '' @ fstring_field fmt v))"
  unfolding element_status_def element_result_def execute_element_def execute_body_def
    dict_contains_def dict_getitem_def Let_def
  by (simp split: option.split)

lemma element_status_valid: "valid_status (element_status fmt e)"
  unfolding element_status_def execute_element_def execute_body_def Let_def valid_status_def
    dict_getitem_def
  by (simp split: option.split)

subsection \<open>The results of a run\<close>

text \<open>
  C1, as amended. With no element, \<^verbatim>\<open>execute_workflow\<close> returns at its first statement
  and the state, stored results included, stays as it is. With at least one element the
  stored results are replaced by a mapping built from the elements alone: its keys are
  pairwise distinct and are exactly the ids of the elements, whatever the outcome of
  each element, and it does not depend on the results stored before. When the ids of the
  elements are pairwise distinct, the keys are the ids in document order, so there are
  exactly as many entries as elements.
\<close>

theorem run_results:
  "(workflow_elements st = [] \<longrightarrow> execute_workflow fmt st = st) \<and>
   (workflow_elements st \<noteq> [] \<longrightarrow>
      distinct (map fst (execution_results (execute_workflow fmt st))) \<and>
      set (map fst (execution_results (execute_workflow fmt st))) =
        set (map elem_id (workflow_elements st)) \<and>
      execution_results (execute_workflow fmt (st\<lparr>execution_results := previous\<rparr>)) =
        execution_results (execute_workflow fmt st) \<and>
      (distinct (map elem_id (workflow_elements st)) \<longrightarrow>
         map fst (execution_results (execute_workflow fmt st)) =
           map elem_id (workflow_elements st) \<and>
         length (execution_results (execute_workflow fmt st)) = length (workflow_elements st)))"
proof (cases "workflow_elements st = []")
  case True
  then show ?thesis by (simp add: execute_workflow_def)
next
  case False
  let ?r = "execution_results (execute_workflow fmt st)"
  from False have r: "?r = fold (\<lambda>e r. dict_setitem r (elem_id e) (element_result fmt e))
      (workflow_elements st) []"
    by (simp add: execute_workflow_nonempty)
  have d: "distinct (map fst ?r)"
    unfolding r by (rule fold_setitem_keys_distinct) simp
  have s: "set (map fst ?r) = set (map elem_id (workflow_elements st))"
    unfolding r by (simp only: fold_setitem_keys_set) simp
  have p: "execution_results (execute_workflow fmt (st\<lparr>execution_results := previous\<rparr>)) = ?r"
    using False by (simp add: execute_workflow_nonempty)
  have k: "map fst ?r = map elem_id (workflow_elements st)"
    if "distinct (map elem_id (workflow_elements st))"
    unfolding r using fold_setitem_keys [OF that, of "[]"] by simp
  have l: "length ?r = length (workflow_elements st)"
    if "distinct (map elem_id (workflow_elements st))"
    using k [OF that] by (metis length_map)
  from False d s p k l show ?thesis by blast
qed

text \<open>
  Witness for C1: the state left by adding, running and deleting one element, which has
  no element, and a state of two elements with stale results.
\<close>

theorem run_results_witness:
  "execute_workflow example_fmt example_stale_state = example_stale_state \<and>
   map fst (execution_results (execute_workflow example_fmt example_pdf_state)) = [''p1'', ''p2''] \<and>
   length (execution_results (execute_workflow example_fmt example_pdf_state)) = 2 \<and>
   execution_results (execute_workflow example_fmt
       (example_pdf_state\<lparr>execution_results := [(''old'', PNone)]\<rparr>)) =
     execution_results (execute_workflow example_fmt example_pdf_state)"
proof -
  have e: "workflow_elements example_stale_state = []"
    by (simp add: example_stale_state_def example_uuid4_def initial_state_def
      add_element_to_workflow_def WorkflowElement_init_def remove_element_def list_pop_def
      PY_SSIZE_T_MAX_def execute_workflow_def execute_element_def execute_body_def Let_def)
  have n: "workflow_elements example_pdf_state \<noteq> []"
    and d: "distinct (map elem_id (workflow_elements example_pdf_state))"
    and k: "map elem_id (workflow_elements example_pdf_state) = [''p1'', ''p2'']"
    and l: "length (workflow_elements example_pdf_state) = 2"
    by (simp_all add: example_pdf_state_def example_element_def initial_state_def)
  from run_results [of example_stale_state example_fmt] e
  have 1: "execute_workflow example_fmt example_stale_state = example_stale_state" by blast
  from run_results [of example_pdf_state example_fmt "[(''old'', PNone)]"] n d k l
  show ?thesis using 1 by simp
qed

text \<open>
  C1 as stated fails on a document with no element: after one element was added, run
  and deleted, a second run leaves the one stored entry in place, where the claim has
  the stored mapping replaced by one with no entry.
\<close>

theorem run_empty_keeps_results:
  "workflow_elements example_stale_state = [] \<and>
   execution_results (execute_workflow example_fmt example_stale_state) =
     [(''u'', PStr ''timer executed successfully'')]"
  by (simp add: example_stale_state_def example_uuid4_def initial_state_def
      add_element_to_workflow_def WorkflowElement_init_def remove_element_def list_pop_def
      PY_SSIZE_T_MAX_def execute_workflow_def execute_element_def execute_body_def Let_def)

subsection \<open>What a run leaves unchanged\<close>

text \<open>
  C10. A run keeps the number and the order of the elements and, of each element, every
  field but the status: the elements before and after the run are equal once the
  status is blanked, and so are the lists of their ids, types, positions, configurations
  and outputs.
\<close>

theorem run_frame:
  "map (\<lambda>e. e\<lparr>status := []\<rparr>) (workflow_elements (execute_workflow fmt st)) =
     map (\<lambda>e. e\<lparr>status := []\<rparr>) (workflow_elements st) \<and>
   length (workflow_elements (execute_workflow fmt st)) = length (workflow_elements st) \<and>
   map elem_id (workflow_elements (execute_workflow fmt st)) = map elem_id (workflow_elements st) \<and>
   map elem_type (workflow_elements (execute_workflow fmt st)) = map elem_type (workflow_elements st) \<and>
   map position (workflow_elements (execute_workflow fmt st)) = map position (workflow_elements st) \<and>
   map config (workflow_elements (execute_workflow fmt st)) = map config (workflow_elements st) \<and>
   map elem_output (workflow_elements (execute_workflow fmt st)) =
     map elem_output (workflow_elements st)"
proof (cases "workflow_elements st = []")
  case True
  then show ?thesis by (simp add: execute_workflow_def)
next
  case False
  then show ?thesis by (simp add: execute_workflow_nonempty comp_def)
qed

subsection \<open>The entry an element's iteration writes\<close>

text \<open>
  Whatever the results hold before, the iteration for an element writes the element's
  result under its id. So the entry is there right after the iteration, and it is in
  the stored results of the run unless a later element has the same id and overwrites
  it.
\<close>

lemma execute_element_entry:
  "map_of (snd (execute_element fmt e res)) (elem_id e) = Some (element_result fmt e)"
  by (simp add: execute_element_eq map_of_dict_setitem)

lemma results_after_entry:
  assumes "i < length (workflow_elements st)"
  shows "map_of (results_after fmt st i) (elem_id (workflow_elements st ! i)) =
           Some (element_result fmt (workflow_elements st ! i))"
proof -
  from assms have "take (Suc i) (workflow_elements st) =
      take i (workflow_elements st) @ [workflow_elements st ! i]"
    by (simp add: take_Suc_conv_app_nth)
  then show ?thesis
    by (simp add: results_after_def execute_loop_eq map_of_dict_setitem)
qed

lemma run_results_from:
  assumes "i < length (workflow_elements st)"
  shows "execution_results (execute_workflow fmt st) =
           fold (\<lambda>e r. dict_setitem r (elem_id e) (element_result fmt e))
             (drop (Suc i) (workflow_elements st)) (results_after fmt st i)"
proof -
  from assms have ne: "workflow_elements st \<noteq> []" by auto
  have "fold (\<lambda>e r. dict_setitem r (elem_id e) (element_result fmt e)) (workflow_elements st) [] =
      fold (\<lambda>e r. dict_setitem r (elem_id e) (element_result fmt e))
        (take (Suc i) (workflow_elements st) @ drop (Suc i) (workflow_elements st)) []"
    by simp
  also have "\<dots> = fold (\<lambda>e r. dict_setitem r (elem_id e) (element_result fmt e))
             (drop (Suc i) (workflow_elements st)) (results_after fmt st i)"
    unfolding fold_append by (simp add: results_after_def execute_loop_eq)
  finally show ?thesis
    using ne by (simp add: execute_workflow_nonempty)
qed

lemma run_result_kept:
  assumes "i < length (workflow_elements st)"
    and "elem_id (workflow_elements st ! i) \<notin>
           set (map elem_id (drop (Suc i) (workflow_elements st)))"
  shows "map_of (execution_results (execute_workflow fmt st)) (elem_id (workflow_elements st ! i)) =
           map_of (results_after fmt st i) (elem_id (workflow_elements st ! i))"
  unfolding run_results_from [OF assms(1)]
  by (rule fold_setitem_other) (rule assms(2))

subsection \<open>PDF uploads\<close>

text \<open>
  C6. In every run, for every element of type \<^verbatim>\<open>pdf_upload\<close>: when its configuration has
  no \<^verbatim>\<open>filename\<close>, the element ends with the status \<^verbatim>\<open>error\<close>, and its iteration writes
  the result \<^verbatim>\<open>No PDF uploaded\<close> under its id, whatever the results hold before; when the
  configuration has a \<^verbatim>\<open>filename\<close>, the element ends with the status \<^verbatim>\<open>ready\<close> and the
  result written is \<^verbatim>\<open>PDF processed: \<close> followed by the file name, which for a string is
  the string itself. That entry is in the results right after the iteration, and in
  the results the run stores whenever no later element has the same id.
\<close>

theorem pdf_upload_run:
  assumes "i < length (workflow_elements st)"
    and "elem_type (workflow_elements st ! i) = ''pdf_upload''"
  shows "(map_of (config (workflow_elements st ! i)) ''filename'' = None \<longrightarrow>
            status (workflow_elements (execute_workflow fmt st) ! i) = ''error'' \<and>
            (\<forall>results. execute_element fmt (workflow_elements st ! i) results =
               ((workflow_elements st ! i)\<lparr>status := ''error''\<rparr>,
                dict_setitem results (elem_id (workflow_elements st ! i))
                  (PStr ''No PDF uploaded''))) \<and>
            map_of (results_after fmt st i) (elem_id (workflow_elements st ! i)) =
              Some (PStr ''No PDF uploaded'')) \<and>
         (\<forall>v. map_of (config (workflow_elements st ! i)) ''filename'' = Some v \<longrightarrow>
            status (workflow_elements (execute_workflow fmt st) ! i) = ''ready'' \<and>
            (\<forall>results. execute_element fmt (workflow_elements st ! i) results =
               ((workflow_elements st ! i)\<lparr>status := ''ready''\<rparr>,
                dict_setitem results (elem_id (workflow_elements st ! i))
                  (PStr (''PDF processed: '' @ fstring_field fmt v)))) \<and>
            map_of (results_after fmt st i) (elem_id (workflow_elements st ! i)) =
              Some (PStr (''PDF processed: '' @ fstring_field fmt v))) \<and>
         (\<forall>s. map_of (config (workflow_elements st ! i)) ''filename'' = Some (PStr s) \<longrightarrow>
            map_of (results_after fmt st i) (elem_id (workflow_elements st ! i)) =
              Some (PStr (''PDF processed: '' @ s))) \<and>
         (elem_id (workflow_elements st ! i) \<notin>
            set (map elem_id (drop (Suc i) (workflow_elements st))) \<longrightarrow>
            map_of (execution_results (execute_workflow fmt st))
                (elem_id (workflow_elements st ! i)) =
              map_of (results_after fmt st i) (elem_id (workflow_elements st ! i)))"
proof -
  let ?e = "workflow_elements st ! i"
  note o = pdf_upload_outcome [OF assms(2), of fmt]
  have s: "status (workflow_elements (execute_workflow fmt st) ! i) = element_status fmt ?e"
    using run_element_at [OF assms(1), of fmt] by simp
  have x: "execute_element fmt ?e results =
      (?e\<lparr>status := element_status fmt ?e\<rparr>,
       dict_setitem results (elem_id ?e) (element_result fmt ?e))" for results
    by (rule execute_element_eq)
  have r: "map_of (results_after fmt st i) (elem_id ?e) = Some (element_result fmt ?e)"
    by (rule results_after_entry [OF assms(1)])
  have k: "elem_id ?e \<notin> set (map elem_id (drop (Suc i) (workflow_elements st))) \<longrightarrow>
      map_of (execution_results (execute_workflow fmt st)) (elem_id ?e) =
        map_of (results_after fmt st i) (elem_id ?e)"
    using run_result_kept [OF assms(1), of fmt] by blast
  have n: "map_of (config ?e) ''filename'' = None \<longrightarrow>
      element_status fmt ?e = ''error'' \<and> element_result fmt ?e = PStr ''No PDF uploaded''"
    using o by simp
  have v: "\<forall>v. map_of (config ?e) ''filename'' = Some v \<longrightarrow>
      element_status fmt ?e = ''ready'' \<and>
      element_result fmt ?e = PStr (''PDF processed: '' @ fstring_field fmt v)"
    using o by simp
  have f: "fstring_field fmt (PStr s) = s" for s
    by (simp add: fstring_field_def)
  from n v k show ?thesis
    unfolding s x by (simp add: f r)
qed

text \<open>
  Witness for C6: one upload element without a file and one with \<^verbatim>\<open>a.pdf\<close>, and an
  upload element whose id a later element repeats.
\<close>

theorem pdf_upload_run_witness:
  "status (workflow_elements (execute_workflow example_fmt example_pdf_state) ! 0) = ''error'' \<and>
   map_of (results_after example_fmt example_pdf_state 0) ''p1'' =
     Some (PStr ''No PDF uploaded'') \<and>
   map_of (execution_results (execute_workflow example_fmt example_pdf_state)) ''p1'' =
     Some (PStr ''No PDF uploaded'') \<and>
   status (workflow_elements (execute_workflow example_fmt example_pdf_state) ! 1) = ''ready'' \<and>
   map_of (results_after example_fmt example_pdf_state 1) ''p2'' =
     Some (PStr ''PDF processed: a.pdf'') \<and>
   map_of (execution_results (execute_workflow example_fmt example_pdf_state)) ''p2'' =
     Some (PStr ''PDF processed: a.pdf'') \<and>
   status (workflow_elements (execute_workflow example_fmt example_duplicate_state) ! 0) =
     ''error'' \<and>
   map_of (results_after example_fmt example_duplicate_state 0) ''b'' =
     Some (PStr ''No PDF uploaded'')"
proof -
  have p: "length (workflow_elements example_pdf_state) = 2"
    "workflow_elements example_pdf_state ! 0 = example_element ''p1'' ''pdf_upload'' [] ''pending''"
    "workflow_elements example_pdf_state ! 1 =
       example_element ''p2'' ''pdf_upload'' [(''filename'', PStr ''a.pdf'')] ''ready''"
    "drop (Suc 0) (workflow_elements example_pdf_state) =
       [example_element ''p2'' ''pdf_upload'' [(''filename'', PStr ''a.pdf'')] ''ready'']"
    "drop (Suc 1) (workflow_elements example_pdf_state) = []"
    by (simp_all add: example_pdf_state_def initial_state_def)
  have d: "length (workflow_elements example_duplicate_state) = 4"
    "workflow_elements example_duplicate_state ! 0 =
       example_element ''b'' ''pdf_upload'' [] ''pending''"
    by (simp_all add: example_duplicate_state_def initial_state_def)
  from pdf_upload_run [of 0 example_pdf_state example_fmt]
  have 0: "status (workflow_elements (execute_workflow example_fmt example_pdf_state) ! 0) = ''error''
      \<and> map_of (results_after example_fmt example_pdf_state 0) ''p1'' = Some (PStr ''No PDF uploaded'')
      \<and> map_of (execution_results (execute_workflow example_fmt example_pdf_state)) ''p1'' =
          Some (PStr ''No PDF uploaded'')"
    unfolding p by (simp add: example_element_def)
  from pdf_upload_run [of 1 example_pdf_state example_fmt]
  have 1: "status (workflow_elements (execute_workflow example_fmt example_pdf_state) ! 1) = ''ready''
      \<and> map_of (results_after example_fmt example_pdf_state 1) ''p2'' =
          Some (PStr ''PDF processed: a.pdf'')
      \<and> map_of (execution_results (execute_workflow example_fmt example_pdf_state)) ''p2'' =
          Some (PStr ''PDF processed: a.pdf'')"
    unfolding p by (simp add: example_element_def fstring_field_def)
  from pdf_upload_run [of 0 example_duplicate_state example_fmt]
  have 2: "status (workflow_elements (execute_workflow example_fmt example_duplicate_state) ! 0) =
        ''error''
      \<and> map_of (results_after example_fmt example_duplicate_state 0) ''b'' =
          Some (PStr ''No PDF uploaded'')"
    unfolding d by (simp add: example_element_def)
  from 0 1 2 show ?thesis by simp
qed

subsection \<open>Conditionals\<close>

text \<open>
  C3, as amended. In every run, for every element of type \<^verbatim>\<open>conditional\<close> whose
  configuration has a \<^verbatim>\<open>true_action\<close>: the element ends with the status \<^verbatim>\<open>ready\<close>, and its
  iteration writes the result \<^verbatim>\<open>Executed: \<close> followed by that action under its id,
  whatever the rest of the configuration is and whatever the results hold before: the
  condition is not evaluated. When the configuration has no \<^verbatim>\<open>true_action\<close>, the lookup
  raises \<^verbatim>\<open>KeyError\<close>, the element ends with the status \<^verbatim>\<open>error\<close> and the result written
  is \<^verbatim>\<open>Error: 'true_action'\<close>. The entry written is in the results right after the
  iteration, and in the results the run stores whenever no later element has the same
  id.
\<close>

theorem conditional_run:
  assumes "i < length (workflow_elements st)"
    and "elem_type (workflow_elements st ! i) = ''conditional''"
  shows "(\<forall>v. map_of (config (workflow_elements st ! i)) ''true_action'' = Some v \<longrightarrow>
            status (workflow_elements (execute_workflow fmt st) ! i) = ''ready'' \<and>
            (\<forall>results. execute_element fmt (workflow_elements st ! i) results =
               ((workflow_elements st ! i)\<lparr>status := ''ready''\<rparr>,
                dict_setitem results (elem_id (workflow_elements st ! i))
                  (PStr (''Executed: '' @ fstring_field fmt v)))) \<and>
            map_of (results_after fmt st i) (elem_id (workflow_elements st ! i)) =
              Some (PStr (''Executed: '' @ fstring_field fmt v))) \<and>
         (\<forall>s. map_of (config (workflow_elements st ! i)) ''true_action'' = Some (PStr s) \<longrightarrow>
            map_of (results_after fmt st i) (elem_id (workflow_elements st ! i)) =
              Some (PStr (''Executed: '' @ s))) \<and>
         (map_of (config (workflow_elements st ! i)) ''true_action'' = None \<longrightarrow>
            status (workflow_elements (execute_workflow fmt st) ! i) = ''error'' \<and>
            (\<forall>results. execute_element fmt (workflow_elements st ! i) results =
               ((workflow_elements st ! i)\<lparr>status := ''error''\<rparr>,
                dict_setitem results (elem_id (workflow_elements st ! i))
                  (PStr (''Error: '' @ [CHR 0x27] @ ''true_action'' @ [CHR 0x27])))) \<and>
            map_of (results_after fmt st i) (elem_id (workflow_elements st ! i)) =
              Some (PStr (''Error: '' @ [CHR 0x27] @ ''true_action'' @ [CHR 0x27]))) \<and>
         (elem_id (workflow_elements st ! i) \<notin>
            set (map elem_id (drop (Suc i) (workflow_elements st))) \<longrightarrow>
            map_of (execution_results (execute_workflow fmt st))
                (elem_id (workflow_elements st ! i)) =
              map_of (results_after fmt st i) (elem_id (workflow_elements st ! i)))"
proof -
  let ?e = "workflow_elements st ! i"
  note o = conditional_outcome [OF assms(2), of fmt]
  have s: "status (workflow_elements (execute_workflow fmt st) ! i) = element_status fmt ?e"
    using run_element_at [OF assms(1), of fmt] by simp
  have x: "execute_element fmt ?e results =
      (?e\<lparr>status := element_status fmt ?e\<rparr>,
       dict_setitem results (elem_id ?e) (element_result fmt ?e))" for results
    by (rule execute_element_eq)
  have r: "map_of (results_after fmt st i) (elem_id ?e) = Some (element_result fmt ?e)"
    by (rule results_after_entry [OF assms(1)])
  have k: "elem_id ?e \<notin> set (map elem_id (drop (Suc i) (workflow_elements st))) \<longrightarrow>
      map_of (execution_results (execute_workflow fmt st)) (elem_id ?e) =
        map_of (results_after fmt st i) (elem_id ?e)"
    using run_result_kept [OF assms(1), of fmt] by blast
  have n: "map_of (config ?e) ''true_action'' = None \<longrightarrow>
      element_status fmt ?e = ''error'' \<and>
      element_result fmt ?e = PStr (''Error: '' @ [CHR 0x27] @ ''true_action'' @ [CHR 0x27])"
    using o by simp
  have v: "\<forall>v. map_of (config ?e) ''true_action'' = Some v \<longrightarrow>
      element_status fmt ?e = ''ready'' \<and>
      element_result fmt ?e = PStr (''Executed: '' @ fstring_field fmt v)"
    using o by simp
  have f: "fstring_field fmt (PStr s) = s" for s
    by (simp add: fstring_field_def)
  from n v k show ?thesis
    unfolding s x by (simp add: f r)
qed

text \<open>
  Witness for C3: a conditional with the actions \<^verbatim>\<open>X\<close> and \<^verbatim>\<open>Y\<close> and an empty condition
  value, a conditional with an empty configuration, and a conditional whose id a later
  element repeats.
\<close>

theorem conditional_run_witness:
  "status (workflow_elements (execute_workflow example_fmt example_conditional_state) ! 0) = ''ready'' \<and>
   map_of (results_after example_fmt example_conditional_state 0) ''c1'' =
     Some (PStr ''Executed: X'') \<and>
   map_of (execution_results (execute_workflow example_fmt example_conditional_state)) ''c1'' =
     Some (PStr ''Executed: X'') \<and>
   status (workflow_elements (execute_workflow example_fmt example_conditional_state) ! 1) = ''error'' \<and>
   map_of (results_after example_fmt example_conditional_state 1) ''c2'' =
     Some (PStr (''Error: '' @ [CHR 0x27] @ ''true_action'' @ [CHR 0x27])) \<and>
   status (workflow_elements (execute_workflow example_fmt example_duplicate_state) ! 2) =
     ''ready'' \<and>
   map_of (results_after example_fmt example_duplicate_state 2) ''a'' =
     Some (PStr ''Executed: X'')"
proof -
  have c: "length (workflow_elements example_conditional_state) = 2"
    "workflow_elements example_conditional_state ! 0 =
       example_element ''c1'' ''conditional''
          [(''condition_type'', PStr ''equals''), (''condition_value'', PStr []),
           (''true_action'', PStr ''X''), (''false_action'', PStr ''Y'')] ''pending''"
    "workflow_elements example_conditional_state ! 1 =
       example_element ''c2'' ''conditional'' [] ''pending''"
    "drop (Suc 0) (workflow_elements example_conditional_state) =
       [example_element ''c2'' ''conditional'' [] ''pending'']"
    by (simp_all add: example_conditional_state_def initial_state_def)
  have d: "length (workflow_elements example_duplicate_state) = 4"
    "workflow_elements example_duplicate_state ! 2 =
       example_element ''a'' ''conditional'' [(''true_action'', PStr ''X'')] ''pending''"
    by (simp_all add: example_duplicate_state_def initial_state_def)
  from conditional_run [of 0 example_conditional_state example_fmt]
  have 0: "status (workflow_elements (execute_workflow example_fmt example_conditional_state) ! 0) =
        ''ready''
      \<and> map_of (results_after example_fmt example_conditional_state 0) ''c1'' =
          Some (PStr ''Executed: X'')
      \<and> map_of (execution_results (execute_workflow example_fmt example_conditional_state)) ''c1'' =
          Some (PStr ''Executed: X'')"
    unfolding c by (simp add: example_element_def fstring_field_def)
  from conditional_run [of 1 example_conditional_state example_fmt]
  have 1: "status (workflow_elements (execute_workflow example_fmt example_conditional_state) ! 1) =
        ''error''
      \<and> map_of (results_after example_fmt example_conditional_state 1) ''c2'' =
          Some (PStr (''Error: '' @ [CHR 0x27] @ ''true_action'' @ [CHR 0x27]))"
    unfolding c by (simp add: example_element_def)
  from conditional_run [of 2 example_duplicate_state example_fmt]
  have 2: "status (workflow_elements (execute_workflow example_fmt example_duplicate_state) ! 2) =
        ''ready''
      \<and> map_of (results_after example_fmt example_duplicate_state 2) ''a'' =
          Some (PStr ''Executed: X'')"
    unfolding d by (simp add: example_element_def fstring_field_def)
  from 0 1 2 show ?thesis by simp
qed

text \<open>
  C3 as stated fails for the empty configuration, the one a new element has: the second
  element of the example ends with the status \<^verbatim>\<open>error\<close> and an \<^verbatim>\<open>Error: ...\<close> result.
\<close>

theorem conditional_without_true_action:
  "status (workflow_elements (execute_workflow example_fmt example_conditional_state) ! 1) = ''error'' \<and>
   execution_results (execute_workflow example_fmt example_conditional_state) =
     [(''c1'', PStr ''Executed: X''),
      (''c2'', PStr (''Error: '' @ [CHR 0x27] @ ''true_action'' @ [CHR 0x27]))]"
  by (simp add: example_conditional_state_def example_element_def initial_state_def
      execute_workflow_def execute_element_def execute_body_def dict_getitem_def
      fstring_field_def Let_def)

section \<open>Adding, removing and configuring elements\<close>

subsection \<open>Adding\<close>

lemma add_element_eq:
  "add_element_to_workflow uuid4 t st =
     st\<lparr>workflow_elements := workflow_elements st @ [added_element uuid4 st 0 t],
        uuid_calls := Suc (uuid_calls st)\<rparr>"
  by (simp add: add_element_to_workflow_def WorkflowElement_init_def added_element_def)

lemma add_elements_eq:
  "add_elements uuid4 ts st =
     st\<lparr>workflow_elements :=
          workflow_elements st @ map (\<lambda>j. added_element uuid4 st j (ts ! j)) [0..<length ts],
        uuid_calls := uuid_calls st + length ts\<rparr>"
proof (induction ts rule: rev_induct)
  case Nil
  then show ?case by (simp add: add_elements_def)
next
  case (snoc t ts)
  have step: "add_elements uuid4 (ts @ [t]) st =
      add_element_to_workflow uuid4 t (add_elements uuid4 ts st)"
    by (simp add: add_elements_def)
  have old: "map (\<lambda>j. added_element uuid4 st j ((ts @ [t]) ! j)) [0..<length ts] =
      map (\<lambda>j. added_element uuid4 st j (ts ! j)) [0..<length ts]"
    by (rule map_cong) (simp_all add: nth_append)
  have new: "added_element uuid4
      (st\<lparr>workflow_elements :=
            workflow_elements st @ map (\<lambda>j. added_element uuid4 st j (ts ! j)) [0..<length ts],
          uuid_calls := uuid_calls st + length ts\<rparr>) 0 t =
      added_element uuid4 st (length ts) t"
    by (simp add: added_element_def)
  show ?case
    unfolding step snoc.IH add_element_eq new
    by (simp add: old)
qed

lemma added_ids:
  "map elem_id (map (\<lambda>j. added_element uuid4 st j (ts ! j)) [0..<length ts]) =
     map (\<lambda>j. uuid4 (uuid_calls st + j)) [0..<length ts]"
  by (simp add: added_element_def comp_def)


lemma add_elements_distinct:
  assumes "distinct (map elem_id (workflow_elements st))"
    and "inj_on uuid4 {uuid_calls st ..< uuid_calls st + length ts}"
    and "\<forall>j < length ts. uuid4 (uuid_calls st + j) \<notin> set (map elem_id (workflow_elements st))"
  shows "distinct (map elem_id (workflow_elements (add_elements uuid4 ts st)))"
proof -
  have "inj_on (\<lambda>j. uuid4 (uuid_calls st + j)) {0..<length ts}"
  proof (rule inj_onI)
    fix x y
    assume "x \<in> {0..<length ts}" "y \<in> {0..<length ts}"
      and "uuid4 (uuid_calls st + x) = uuid4 (uuid_calls st + y)"
    with inj_onD [OF assms(2), of "uuid_calls st + x" "uuid_calls st + y"]
    show "x = y" by simp
  qed
  then have "distinct (map (\<lambda>j. uuid4 (uuid_calls st + j)) [0..<length ts])"
    by (simp add: distinct_map)
  moreover have "set (map elem_id (workflow_elements st)) \<inter>
      set (map (\<lambda>j. uuid4 (uuid_calls st + j)) [0..<length ts]) = {}"
    using assms(3) by (fastforce simp: image_iff)
  ultimately show ?thesis
    using assms(1) by (simp add: add_elements_eq added_ids del: map_map)
qed





subsection \<open>Removing\<close>

lemma list_pop_subset: "list_pop xs i = Inr ys \<Longrightarrow> set ys \<subseteq> set xs"
  unfolding list_pop_def Let_def
  by (auto split: if_splits dest: in_set_takeD in_set_dropD)

text \<open>
  C4, as amended. For an index \<open>i\<close> with \<open>i \<ge> N\<close> or \<open>i < -N\<close>, where \<open>N\<close> is the number of
  elements, removing raises an exception and leaves the state as it is: the exception
  is \<^verbatim>\<open>IndexError\<close> when the index fits a C \<^verbatim>\<open>ssize_t\<close> (from \<open>-2\<^sup>6\<^sup>3\<close> to \<open>2\<^sup>6\<^sup>3 - 1\<close>), and
  \<^verbatim>\<open>OverflowError\<close> when it does not. An index from \<open>-N\<close> to \<open>-1\<close> is in range for
  \<^verbatim>\<open>list.pop\<close>: it counts from the end, and the element at position \<open>N + i\<close> is removed.
\<close>

theorem remove_out_of_range:
  "(index < - int (length (workflow_elements st)) \<or> int (length (workflow_elements st)) \<le> index \<longrightarrow>
      fst (remove_element index st) \<noteq> None \<and> snd (remove_element index st) = st) \<and>
   ((index < - int (length (workflow_elements st)) \<or> int (length (workflow_elements st)) \<le> index) \<and>
    - PY_SSIZE_T_MAX - 1 \<le> index \<and> index \<le> PY_SSIZE_T_MAX \<longrightarrow>
      remove_element index st =
        (Some (IndexError (if workflow_elements st = [] then ''pop from empty list''
                           else ''pop index out of range'')), st)) \<and>
   (index < - PY_SSIZE_T_MAX - 1 \<or> PY_SSIZE_T_MAX < index \<longrightarrow>
      remove_element index st =
        (Some (OverflowError ''Python int too large to convert to C ssize_t''), st)) \<and>
   (- int (length (workflow_elements st)) \<le> index \<and> index < 0 \<and> - PY_SSIZE_T_MAX - 1 \<le> index \<longrightarrow>
      remove_element index st =
        (None, st\<lparr>workflow_elements :=
           take (nat (index + int (length (workflow_elements st)))) (workflow_elements st) @
           drop (Suc (nat (index + int (length (workflow_elements st))))) (workflow_elements st)\<rparr>))"
  unfolding remove_element_def list_pop_def Let_def PY_SSIZE_T_MAX_def
  by auto

text \<open>
  Witness for C4: the indices 2 and -3 on two elements and the index 0 on none raise
  \<^verbatim>\<open>IndexError\<close>; the index \<open>2\<^sup>6\<^sup>3\<close> raises \<^verbatim>\<open>OverflowError\<close>; the index -2 on two elements
  removes the first.
\<close>

theorem remove_out_of_range_witness:
  "remove_element 2 example_pdf_state =
     (Some (IndexError ''pop index out of range''), example_pdf_state) \<and>
   remove_element (-3) example_pdf_state =
     (Some (IndexError ''pop index out of range''), example_pdf_state) \<and>
   remove_element 0 initial_state = (Some (IndexError ''pop from empty list''), initial_state) \<and>
   remove_element 9223372036854775808 example_pdf_state =
     (Some (OverflowError ''Python int too large to convert to C ssize_t''), example_pdf_state) \<and>
   map elem_id (workflow_elements (snd (remove_element (-2) example_pdf_state))) = [''p2'']"
proof -
  have l: "length (workflow_elements example_pdf_state) = 2"
    "workflow_elements example_pdf_state \<noteq> []"
    "length (workflow_elements initial_state) = 0"
    "map elem_id (workflow_elements example_pdf_state) = [''p1'', ''p2'']"
    by (simp_all add: example_pdf_state_def example_element_def initial_state_def)
  from remove_out_of_range [of 2 example_pdf_state] remove_out_of_range [of "-3" example_pdf_state]
    remove_out_of_range [of 0 initial_state] remove_out_of_range [of "-2" example_pdf_state]
    remove_out_of_range [of 9223372036854775808 example_pdf_state] l
  show ?thesis by (simp add: PY_SSIZE_T_MAX_def drop_map [symmetric] del: drop_map)
qed

text \<open>
  C4 as stated fails at the index -1, which is none of the positions 0 and 1 of the two
  elements: no exception is raised and the last element is removed. It fails at the
  index \<open>2\<^sup>6\<^sup>3\<close> too, where the exception raised is \<^verbatim>\<open>OverflowError\<close>, not \<^verbatim>\<open>IndexError\<close>.
\<close>

theorem remove_negative_index:
  "remove_element (-1) example_pdf_state =
     (None, example_pdf_state\<lparr>workflow_elements :=
        [example_element ''p1'' ''pdf_upload'' [] ''pending'']\<rparr>) \<and>
   remove_element 9223372036854775808 example_pdf_state =
     (Some (OverflowError ''Python int too large to convert to C ssize_t''), example_pdf_state)"
  by (simp add: remove_element_def list_pop_def PY_SSIZE_T_MAX_def example_pdf_state_def
      initial_state_def Let_def)

subsection \<open>Configuring\<close>

lemma render_element_config_status:
  "valid_status (status e) \<Longrightarrow> valid_status (status (render_element_config ui e))"
  unfolding render_element_config_def Let_def valid_status_def
  by (simp split: option.split prod.split)

lemma render_element_config_id: "elem_id (render_element_config ui e) = elem_id e"
  unfolding render_element_config_def Let_def
  by (simp split: option.split prod.split)

text \<open>
  The status a text input gets: \<^verbatim>\<open>ready\<close> for a non-empty text, and otherwise the status
  it had, since the branch assigns the status under \<^verbatim>\<open>if value:\<close> only.
\<close>

lemma text_input_status:
  "elem_type e = ''text_input'' \<Longrightarrow>
   status (render_element_config ui e) =
     (if st_text_area ui (''text_'' @ elem_id e) \<noteq> [] then ''ready'' else status e)"
  by (simp add: render_element_config_def Let_def)

text \<open>
  C7 does not hold of the code: a text input that is \<^verbatim>\<open>ready\<close> and is configured with an
  empty text stays \<^verbatim>\<open>ready\<close>, where the branches for \<^verbatim>\<open>conditional\<close>, \<^verbatim>\<open>api_call\<close> and
  \<^verbatim>\<open>email\<close> assign \<^verbatim>\<open>pending\<close>.
\<close>

theorem text_input_empty_stays_ready:
  "status (render_element_config example_widgets
     (example_element ''t1'' ''text_input''
        [(''label'', PStr ''Enter text''), (''value'', PStr ''hello'')] ''ready'')) = ''ready''"
  by (simp add: render_element_config_def example_widgets_def example_element_def Let_def)

section \<open>Import and export\<close>

subsection \<open>The import loop\<close>

lemma import_workflow_fst:
  "fst (import_workflow uuid4 workflow_doc st) =
     (case fst (import_elements uuid4 (doc_elements workflow_doc) (st\<lparr>workflow_elements := []\<rparr>)) of
        None \<Rightarrow> StSuccess (length (workflow_elements
                  (snd (import_elements uuid4 (doc_elements workflow_doc)
                         (st\<lparr>workflow_elements := []\<rparr>)))))
      | Some e \<Rightarrow> StError e)"
  by (simp add: import_workflow_def doc_elements_def Let_def split: prod.split option.split)

lemma import_workflow_snd:
  "snd (import_workflow uuid4 workflow_doc st) =
     snd (import_elements uuid4 (doc_elements workflow_doc) (st\<lparr>workflow_elements := []\<rparr>))"
  by (simp add: import_workflow_def doc_elements_def Let_def split: prod.split option.split)

lemma doc_elements_update [simp]: "doc_elements (workflow_doc\<lparr>elements := Some ds\<rparr>) = ds"
  by (simp add: doc_elements_def)

lemma import_elements_bad:
  "\<not> has_required_fields d \<Longrightarrow>
   import_elements uuid4 (d # rest) st = (Some (KeyError (missing_key d)), st)"
  by (auto simp: has_required_fields_def missing_key_def split: option.splits)

lemma import_elements_append:
  "import_elements uuid4 (pre @ post) st =
     (case import_elements uuid4 pre st of
        (None, st') \<Rightarrow> import_elements uuid4 post st'
      | (Some e, st') \<Rightarrow> (Some e, st'))"
proof (induction pre arbitrary: st)
  case Nil
  then show ?case by simp
next
  case (Cons d pre)
  show ?case
    by (cases "data_type d"; cases "data_id d") (simp_all add: Cons.IH Let_def split: prod.split)
qed

lemma import_elements_good:
  "list_all has_required_fields ds \<Longrightarrow>
   fst (import_elements uuid4 ds st) = None \<and>
   length (workflow_elements (snd (import_elements uuid4 ds st))) =
     length (workflow_elements st) + length ds"
proof (induction ds arbitrary: st)
  case Nil
  then show ?case by simp
next
  case (Cons d ds)
  from Cons.prems obtain t i where ti: "data_type d = Some t" "data_id d = Some i"
    by (auto simp: has_required_fields_def)
  from Cons.prems have "list_all has_required_fields ds" by simp
  note IH = Cons.IH [OF this]
  show ?case
    by (simp add: ti Let_def IH split: prod.split)
qed

subsection \<open>A document with an element that lacks a required field\<close>

text \<open>
  C8. When some element object of the imported document lacks \<^verbatim>\<open>type\<close> or \<^verbatim>\<open>id\<close>,
  \<^verbatim>\<open>import_workflow\<close> returns normally and reports the \<^verbatim>\<open>KeyError\<close> of the first such
  object, for \<^verbatim>\<open>type\<close> if that is missing and for \<^verbatim>\<open>id\<close> otherwise. The state it leaves
  is the one a successful import of the objects before that one gives: the elements
  held before the import are gone whatever they were, and the sequence holds one
  element for each object read up to the failure.
\<close>

theorem import_malformed:
  assumes "\<not> list_all has_required_fields (doc_elements workflow_doc)"
  shows "fst (import_workflow uuid4 workflow_doc st) =
           StError (KeyError (missing_key
             (hd (dropWhile has_required_fields (doc_elements workflow_doc))))) \<and>
         snd (import_workflow uuid4 workflow_doc st) =
           snd (import_workflow uuid4
             (workflow_doc\<lparr>elements :=
                Some (takeWhile has_required_fields (doc_elements workflow_doc))\<rparr>) st) \<and>
         fst (import_workflow uuid4
             (workflow_doc\<lparr>elements :=
                Some (takeWhile has_required_fields (doc_elements workflow_doc))\<rparr>) st) =
           StSuccess (length (takeWhile has_required_fields (doc_elements workflow_doc))) \<and>
         length (workflow_elements (snd (import_workflow uuid4 workflow_doc st))) =
           length (takeWhile has_required_fields (doc_elements workflow_doc)) \<and>
         workflow_elements
             (snd (import_workflow uuid4 workflow_doc (st\<lparr>workflow_elements := previous\<rparr>))) =
           workflow_elements (snd (import_workflow uuid4 workflow_doc st))"
proof -
  let ?ds = "doc_elements workflow_doc"
  let ?pre = "takeWhile has_required_fields ?ds"
  let ?post = "dropWhile has_required_fields ?ds"
  let ?st = "st\<lparr>workflow_elements := []\<rparr>"
  from assms have ne: "?post \<noteq> []" by (simp add: list_all_iff)
  then obtain b rest where post: "?post = b # rest" by (cases ?post) auto
  with hd_dropWhile [OF ne] have bad: "\<not> has_required_fields b" by simp
  have "list_all has_required_fields ?pre"
    by (simp add: list_all_iff) (auto dest: set_takeWhileD)
  from import_elements_good [OF this, of uuid4 ?st]
  have pre: "fst (import_elements uuid4 ?pre ?st) = None"
    and len: "length (workflow_elements (snd (import_elements uuid4 ?pre ?st))) = length ?pre"
    by simp_all
  have "import_elements uuid4 ?ds ?st = import_elements uuid4 (?pre @ b # rest) ?st"
    using post by (metis takeWhile_dropWhile_id)
  also have "\<dots> = (Some (KeyError (missing_key b)), snd (import_elements uuid4 ?pre ?st))"
    using pre by (cases "import_elements uuid4 ?pre ?st")
      (simp add: import_elements_append import_elements_bad [OF bad] del: import_elements.simps)
  finally have all: "import_elements uuid4 ?ds ?st =
    (Some (KeyError (missing_key b)), snd (import_elements uuid4 ?pre ?st))" .
  from all pre len post show ?thesis
    by (simp add: import_workflow_fst import_workflow_snd)
qed

text \<open>
  Witness for C8: the second of three element objects has no \<^verbatim>\<open>id\<close>; the import into a
  state of two elements reports the \<^verbatim>\<open>KeyError\<close> and leaves the first object's element.
\<close>

theorem import_malformed_witness:
  "import_workflow example_uuid4
     (example_document [example_data (Some ''e1'') (Some ''timer'') (Some ''ready''),
                        example_data None (Some ''email'') None,
                        example_data (Some ''e3'') (Some ''chart'') None])
     example_pdf_state =
   (StError (KeyError ''id''),
    example_pdf_state\<lparr>workflow_elements := [example_element ''e1'' ''timer'' [] ''ready'']\<rparr>)"
proof -
  let ?doc = "example_document [example_data (Some ''e1'') (Some ''timer'') (Some ''ready''),
                        example_data None (Some ''email'') None,
                        example_data (Some ''e3'') (Some ''chart'') None]"
  have h: "\<not> list_all has_required_fields (doc_elements ?doc)"
    by (simp add: doc_elements_def example_document_def example_data_def has_required_fields_def)
  have p: "takeWhile has_required_fields (doc_elements ?doc) =
      [example_data (Some ''e1'') (Some ''timer'') (Some ''ready'')]"
    and q: "missing_key (hd (dropWhile has_required_fields (doc_elements ?doc))) = ''id''"
    by (simp_all add: doc_elements_def example_document_def example_data_def
        has_required_fields_def missing_key_def)
  have r: "snd (import_workflow example_uuid4
      (?doc\<lparr>elements := Some [example_data (Some ''e1'') (Some ''timer'') (Some ''ready'')]\<rparr>)
      example_pdf_state) =
    example_pdf_state\<lparr>workflow_elements := [example_element ''e1'' ''timer'' [] ''ready'']\<rparr>"
    by (simp add: import_workflow_def example_data_def example_element_def
        WorkflowElement_init_def Let_def)
  from import_malformed [OF h, of example_uuid4 example_pdf_state]
  show ?thesis
    unfolding p q r by (simp add: prod_eq_iff)
qed

subsection \<open>Export followed by import\<close>

lemma import_elements_to_dict_step:
  assumes "elem_id e \<noteq> []"
  shows "import_elements uuid4 (to_dict e # rest) st =
           import_elements uuid4 rest (st\<lparr>workflow_elements := workflow_elements st @ [e]\<rparr>)"
proof -
  have built: "fst (WorkflowElement_init uuid4 (uuid_calls st) (elem_type e) (Some (elem_id e)))
      \<lparr>position := position e, config := config e, status := status e,
       elem_output := elem_output e\<rparr> = e"
    using assms by (simp add: WorkflowElement_init_def)
  have n: "snd (WorkflowElement_init uuid4 (uuid_calls st) (elem_type e) (Some (elem_id e))) =
      uuid_calls st"
    using assms by (simp add: WorkflowElement_init_def)
  show ?thesis
    using built n by (simp add: to_dict_def Let_def split_beta)
qed

lemma import_elements_to_dict:
  "list_all (\<lambda>e. elem_id e \<noteq> []) es \<Longrightarrow>
   import_elements uuid4 (map to_dict es) st =
     (None, st\<lparr>workflow_elements := workflow_elements st @ es\<rparr>)"
proof (induction es arbitrary: st)
  case Nil
  then show ?case by simp
next
  case (Cons e es)
  from Cons.prems have e: "elem_id e \<noteq> []" and es: "list_all (\<lambda>e. elem_id e \<noteq> []) es"
    by simp_all
  show ?case
    by (simp add: import_elements_to_dict_step [OF e] Cons.IH [OF es] del: import_elements.simps)
qed

text \<open>
  C2. The elements of a workflow have the non-empty ids the constructor gives them
  (\<open>ids_nonempty\<close>, an invariant of the operations, shown below). Importing what
  \<^verbatim>\<open>export_workflow\<close> produced from such a workflow, into any state, succeeds, reports the
  number of elements, and makes the sequence equal to the exported one: the same number
  of elements, each with the same id, type, position, configuration, status and output.
\<close>

theorem export_import_roundtrip:
  assumes "ids_nonempty st"
  shows "import_workflow uuid4 (export_workflow now st) st' =
           (StSuccess (length (workflow_elements st)),
            st'\<lparr>workflow_elements := workflow_elements st\<rparr>)"
  using assms
  by (simp add: import_workflow_def export_workflow_def ids_nonempty_def import_elements_to_dict)

text \<open>
  Witness for C2: the workflow of two conditionals, one \<^verbatim>\<open>pending\<close> with a full
  configuration, is exported and imported into the initial state.
\<close>

theorem export_import_roundtrip_witness:
  "ids_nonempty example_conditional_state \<and>
   import_workflow example_uuid4
     (export_workflow ''2024-01-01T00:00:00'' example_conditional_state) initial_state =
   (StSuccess 2, example_conditional_state)"
proof -
  have h: "ids_nonempty example_conditional_state"
    and l: "length (workflow_elements example_conditional_state) = 2"
    and e: "initial_state\<lparr>workflow_elements := workflow_elements example_conditional_state\<rparr> =
      example_conditional_state"
    by (simp_all add: ids_nonempty_def example_conditional_state_def example_element_def)
  from export_import_roundtrip [OF h, of example_uuid4 "''2024-01-01T00:00:00''" initial_state] h l e
  show ?thesis by simp
qed

section \<open>Invariants of the session state\<close>

subsection \<open>The status values\<close>

lemma remove_element_valid: "statuses_valid st \<Longrightarrow> statuses_valid (snd (remove_element i st))"
  unfolding remove_element_def statuses_valid_def list_all_iff
  by (auto split: sum.splits dest!: list_pop_subset)

lemma render_elements_valid:
  "statuses_valid st \<Longrightarrow> list_all (\<lambda>e. valid_status (status e)) es \<Longrightarrow>
   statuses_valid (render_elements ui i es st)"
proof (induction es arbitrary: i st)
  case Nil
  then show ?case by simp
next
  case (Cons e es)
  let ?st = "st\<lparr>workflow_elements := (workflow_elements st)[i := render_element_config ui e]\<rparr>"
  from Cons.prems have "valid_status (status (render_element_config ui e))"
    by (simp add: render_element_config_status)
  with Cons.prems(1) have v: "statuses_valid ?st"
    unfolding statuses_valid_def list_all_iff
    by (auto dest!: subsetD [OF set_update_subset_insert])
  show ?case
  proof (cases "st_button ui (''delete_'' @ elem_id e)")
    case True
    with v show ?thesis by (simp add: remove_element_valid)
  next
    case False
    with v Cons.prems Cons.IH [of ?st "Suc i"] show ?thesis by simp
  qed
qed

lemma render_workflow_canvas_valid:
  assumes "statuses_valid st"
  shows "statuses_valid (render_workflow_canvas ui st)"
proof -
  from assms have "list_all (\<lambda>e. valid_status (status e)) (workflow_elements st)"
    by (simp add: statuses_valid_def)
  from render_elements_valid [OF assms this] assms show ?thesis
    by (simp add: render_workflow_canvas_def)
qed

lemma execute_workflow_valid: "statuses_valid st \<Longrightarrow> statuses_valid (execute_workflow fmt st)"
proof (cases "workflow_elements st = []")
  case True
  then show "statuses_valid st \<Longrightarrow> ?thesis" by (simp add: execute_workflow_def)
next
  case False
  then show ?thesis
    by (simp add: execute_workflow_nonempty statuses_valid_def list_all_iff element_status_valid)
qed

lemma add_element_valid:
  "statuses_valid st \<Longrightarrow> statuses_valid (add_element_to_workflow uuid4 t st)"
  by (simp add: add_element_to_workflow_def WorkflowElement_init_def statuses_valid_def
      valid_status_def)

lemma import_elements_valid:
  "statuses_valid st \<Longrightarrow>
   list_all (\<lambda>d. case data_status d of None \<Rightarrow> True | Some s \<Rightarrow> valid_status s) ds \<Longrightarrow>
   statuses_valid (snd (import_elements uuid4 ds st))"
proof (induction ds arbitrary: st)
  case Nil
  then show ?case by simp
next
  case (Cons d ds)
  show ?case
  proof (cases "has_required_fields d")
    case False
    with Cons.prems show ?thesis by (simp add: import_elements_bad del: import_elements.simps)
  next
    case True
    then obtain t i where ti: "data_type d = Some t" "data_id d = Some i"
      by (auto simp: has_required_fields_def)
    obtain element n' where w: "WorkflowElement_init uuid4 (uuid_calls st) t (Some i) = (element, n')"
      by (cases "WorkflowElement_init uuid4 (uuid_calls st) t (Some i)")
    let ?s = "case data_status d of None \<Rightarrow> ''pending'' | Some s \<Rightarrow> s"
    from Cons.prems(2) have "valid_status ?s"
      by (simp add: valid_status_def split: option.splits)
    with Cons.prems(1) have "statuses_valid
        (st\<lparr>workflow_elements := workflow_elements st @
             [element\<lparr>position := (case data_position d of
                                       None \<Rightarrow> PDict [(''x'', PInt 0), (''y'', PInt 0)]
                                     | Some p \<Rightarrow> p),
                       config := (case data_config d of None \<Rightarrow> [] | Some c \<Rightarrow> c),
                       status := ?s,
                       elem_output := (case data_output d of None \<Rightarrow> PNone | Some v \<Rightarrow> v)\<rparr>],
            uuid_calls := n'\<rparr>)"
      by (simp add: statuses_valid_def)
    with Cons.IH Cons.prems(2) ti w show ?thesis by simp
  qed
qed

lemma import_workflow_valid:
  assumes "doc_statuses_valid workflow_doc"
  shows "statuses_valid (snd (import_workflow uuid4 workflow_doc st))"
proof -
  have "statuses_valid (st\<lparr>workflow_elements := []\<rparr>)" by (simp add: statuses_valid_def)
  from import_elements_valid [OF this, of "doc_elements workflow_doc" uuid4] assms
  show ?thesis
    by (simp add: import_workflow_snd doc_statuses_valid_def)
qed

text \<open>
  C5, as amended. When every element has one of the four status values, so it has after
  an element is added, after an element is removed (or the removal raised), after the
  canvas is rendered with any widget values, after a run and after a clear. After an
  import it has when every status field present in the imported document holds one of
  the four values: \<^verbatim>\<open>import_workflow\<close> stores the field as it is and uses \<^verbatim>\<open>pending\<close> for a
  missing one.
\<close>

theorem status_invariant:
  assumes "statuses_valid st"
  shows "statuses_valid (add_element_to_workflow uuid4 element_type st) \<and>
         statuses_valid (snd (remove_element index st)) \<and>
         statuses_valid (render_workflow_canvas ui st) \<and>
         statuses_valid (execute_workflow fmt st) \<and>
         statuses_valid (clear_workflow st) \<and>
         (doc_statuses_valid workflow_doc \<longrightarrow>
            statuses_valid (snd (import_workflow uuid4 workflow_doc st)))"
  using assms
  by (simp add: add_element_valid remove_element_valid render_workflow_canvas_valid
      execute_workflow_valid import_workflow_valid)
    (simp add: clear_workflow_def statuses_valid_def)

text \<open>Witness for C5: each operation on a state of two elements, and a valid document.\<close>

theorem status_invariant_witness:
  "statuses_valid example_pdf_state \<and>
   doc_statuses_valid (example_document [example_data (Some ''e1'') (Some ''timer'') (Some ''ready'')]) \<and>
   statuses_valid (add_element_to_workflow example_uuid4 ''email'' example_pdf_state) \<and>
   statuses_valid (snd (remove_element 0 example_pdf_state)) \<and>
   statuses_valid (render_workflow_canvas example_widgets example_pdf_state) \<and>
   statuses_valid (execute_workflow example_fmt example_pdf_state) \<and>
   statuses_valid (clear_workflow example_pdf_state) \<and>
   statuses_valid (snd (import_workflow example_uuid4
     (example_document [example_data (Some ''e1'') (Some ''timer'') (Some ''ready'')])
     example_pdf_state))"
proof -
  have v: "statuses_valid example_pdf_state"
    by (simp add: statuses_valid_def valid_status_def example_pdf_state_def example_element_def
        initial_state_def)
  have d: "doc_statuses_valid
      (example_document [example_data (Some ''e1'') (Some ''timer'') (Some ''ready'')])"
    by (simp add: doc_statuses_valid_def doc_elements_def example_document_def example_data_def
        valid_status_def)
  from status_invariant [OF v, of example_uuid4 "''email''" 0 example_widgets example_fmt
      "example_document [example_data (Some ''e1'') (Some ''timer'') (Some ''ready'')]"] v d
  show ?thesis by simp
qed

text \<open>
  C5 as stated fails for an import: a document whose one element has the status
  \<^verbatim>\<open>done\<close> gives an element with that status, which is none of the four values.
\<close>

theorem import_keeps_unknown_status:
  "map status (workflow_elements (snd (import_workflow example_uuid4
      (example_document [example_data (Some ''e1'') (Some ''timer'') (Some ''done'')])
      initial_state))) = [''done''] \<and>
   \<not> valid_status ''done''"
  by (simp add: import_workflow_def example_document_def example_data_def initial_state_def
      WorkflowElement_init_def valid_status_def Let_def)

subsection \<open>The ids are not empty\<close>

text \<open>
  \<^verbatim>\<open>str(uuid.uuid4())\<close> is never empty, and the constructor replaces an empty id by it:
  with such a generator every operation keeps the ids of the elements non-empty.
\<close>

lemma WorkflowElement_init_id:
  "\<forall>n. uuid4 n \<noteq> [] \<Longrightarrow> elem_id (fst (WorkflowElement_init uuid4 n t i)) \<noteq> []"
  by (simp add: WorkflowElement_init_def split: option.split)

lemma render_elements_ids:
  "ids_nonempty st \<Longrightarrow> list_all (\<lambda>e. elem_id e \<noteq> []) es \<Longrightarrow>
   ids_nonempty (render_elements ui i es st)"
proof (induction es arbitrary: i st)
  case Nil
  then show ?case by simp
next
  case (Cons e es)
  let ?st = "st\<lparr>workflow_elements := (workflow_elements st)[i := render_element_config ui e]\<rparr>"
  from Cons.prems have "elem_id (render_element_config ui e) \<noteq> []"
    by (simp add: render_element_config_id)
  with Cons.prems(1) have v: "ids_nonempty ?st"
    unfolding ids_nonempty_def list_all_iff
    by (auto dest!: subsetD [OF set_update_subset_insert])
  show ?case
  proof (cases "st_button ui (''delete_'' @ elem_id e)")
    case True
    from v have "ids_nonempty (snd (remove_element (int i) ?st))"
      unfolding remove_element_def ids_nonempty_def list_all_iff
      by (auto split: sum.splits dest!: list_pop_subset)
    with True show ?thesis by simp
  next
    case False
    with v Cons.prems Cons.IH [of ?st "Suc i"] show ?thesis by simp
  qed
qed

lemma import_elements_ids:
  "\<forall>n. uuid4 n \<noteq> [] \<Longrightarrow> ids_nonempty st \<Longrightarrow> ids_nonempty (snd (import_elements uuid4 ds st))"
proof (induction ds arbitrary: st)
  case Nil
  then show ?case by simp
next
  case (Cons d ds)
  show ?case
  proof (cases "has_required_fields d")
    case False
    with Cons.prems show ?thesis by (simp add: import_elements_bad del: import_elements.simps)
  next
    case True
    then obtain t i where ti: "data_type d = Some t" "data_id d = Some i"
      by (auto simp: has_required_fields_def)
    obtain element n' where w: "WorkflowElement_init uuid4 (uuid_calls st) t (Some i) = (element, n')"
      by (cases "WorkflowElement_init uuid4 (uuid_calls st) t (Some i)")
    with WorkflowElement_init_id [OF Cons.prems(1), of "uuid_calls st" t "Some i"]
    have "elem_id element \<noteq> []" by simp
    with Cons.prems(2) have "ids_nonempty
        (st\<lparr>workflow_elements := workflow_elements st @
             [element\<lparr>position := (case data_position d of
                                       None \<Rightarrow> PDict [(''x'', PInt 0), (''y'', PInt 0)]
                                     | Some p \<Rightarrow> p),
                       config := (case data_config d of None \<Rightarrow> [] | Some c \<Rightarrow> c),
                       status := (case data_status d of None \<Rightarrow> ''pending'' | Some s \<Rightarrow> s),
                       elem_output := (case data_output d of None \<Rightarrow> PNone | Some v \<Rightarrow> v)\<rparr>],
            uuid_calls := n'\<rparr>)"
      by (simp add: ids_nonempty_def)
    from Cons.IH [OF Cons.prems(1) this] ti w show ?thesis by simp
  qed
qed

lemma ids_nonempty_invariant:
  assumes "\<forall>n. uuid4 n \<noteq> []"
  shows "ids_nonempty initial_state"
    and "ids_nonempty st \<Longrightarrow> ids_nonempty (add_element_to_workflow uuid4 t st)"
    and "ids_nonempty st \<Longrightarrow> ids_nonempty (snd (remove_element index st))"
    and "ids_nonempty st \<Longrightarrow> ids_nonempty (render_workflow_canvas ui st)"
    and "ids_nonempty st \<Longrightarrow> ids_nonempty (execute_workflow fmt st)"
    and "ids_nonempty (clear_workflow st)"
    and "ids_nonempty (snd (import_workflow uuid4 workflow_doc st))"
proof -
  show "ids_nonempty initial_state"
    by (simp add: ids_nonempty_def initial_state_def)
  show "ids_nonempty st \<Longrightarrow> ids_nonempty (add_element_to_workflow uuid4 t st)"
    using assms by (simp add: add_element_eq added_element_def ids_nonempty_def)
  show "ids_nonempty st \<Longrightarrow> ids_nonempty (snd (remove_element index st))"
    unfolding remove_element_def ids_nonempty_def list_all_iff
    by (auto split: sum.splits dest!: list_pop_subset)
  show "ids_nonempty st \<Longrightarrow> ids_nonempty (render_workflow_canvas ui st)"
    using render_elements_ids [of st "workflow_elements st" ui 0]
    by (simp add: render_workflow_canvas_def) (simp add: ids_nonempty_def)
  show "ids_nonempty st \<Longrightarrow> ids_nonempty (execute_workflow fmt st)"
  proof (cases "workflow_elements st = []")
    case True
    then show "ids_nonempty st \<Longrightarrow> ?thesis" by (simp add: execute_workflow_def)
  next
    case False
    then show "ids_nonempty st \<Longrightarrow> ?thesis"
      by (simp add: execute_workflow_nonempty ids_nonempty_def list_all_iff)
  qed
  show "ids_nonempty (clear_workflow st)"
    by (simp add: clear_workflow_def ids_nonempty_def)
  have "ids_nonempty (st\<lparr>workflow_elements := []\<rparr>)" by (simp add: ids_nonempty_def)
  from import_elements_ids [OF assms this]
  show "ids_nonempty (snd (import_workflow uuid4 workflow_doc st))"
    by (simp add: import_workflow_snd)
qed

end
